theory Spec2Isabelle
  imports Complex_Main "HOL-Library.AList" "HOL-Library.Log_Nat"
begin

section \<open>Values of the Python program\<close>

subsection \<open>Floats\<close>

text \<open>
  A Python \<^verbatim>\<open>float\<close> is an IEEE 754 binary64 number. A finite one is kept as the
  rational it denotes (the two zeros are one value, as \<^verbatim>\<open>==\<close> sees them); the
  infinities and the not-a-number are values of their own. \<open>fl\<close> rounds a rational to
  the nearest binary64 number, ties to the even significand: it is what reading a decimal
  literal and what every arithmetic operation does to the exact result.
\<close>

datatype pyfloat = Fin rat | PosInf | NegInf | NaN

definition pow2 :: "int \<Rightarrow> rat" where
  "pow2 e = (if 0 \<le> e then 2 ^ nat e else 1 / 2 ^ nat (- e))"

text \<open>For \<open>0 < x\<close>, \<open>ilog2 x\<close> is the exponent \<open>e\<close> with \<open>2^e \<le> x < 2^(e+1)\<close>.\<close>

definition ilog2 :: "rat \<Rightarrow> int" where
  "ilog2 x = (if 1 \<le> x then int (floorlog 2 (nat \<lfloor>x\<rfloor>)) - 1
              else - int (floorlog 2 (nat (\<lceil>1 / x\<rceil> - 1))))"

definition round_half_even :: "rat \<Rightarrow> int" where
  "round_half_even x =
     (let n = \<lfloor>x\<rfloor>; r = x - of_int n
      in if r < 1 / 2 then n else if 1 / 2 < r then n + 1 else if even n then n else n + 1)"

text \<open>
  Binary64 has 53 significant bits, normal exponents from \<open>-1022\<close> to \<open>1023\<close> and
  subnormal numbers on the grid of \<open>2^(-1074)\<close>; a result that rounds to \<open>2^1024\<close> or
  beyond is an infinity.
\<close>

definition fl :: "rat \<Rightarrow> pyfloat" where
  "fl x =
     (if x = 0 then Fin 0
      else let e = max (ilog2 \<bar>x\<bar>) (- 1022);
               u = pow2 (e - 52);
               r = of_int (round_half_even (x / u)) * u
           in if r \<noteq> 0 \<and> 1024 \<le> ilog2 \<bar>r\<bar> then (if 0 < x then PosInf else NegInf)
              else Fin r)"

text \<open>\<^verbatim>\<open>x + y\<close> on two floats.\<close>

fun float_add :: "pyfloat \<Rightarrow> pyfloat \<Rightarrow> pyfloat" where
  "float_add (Fin a) (Fin b) = fl (a + b)"
| "float_add NaN _ = NaN"
| "float_add _ NaN = NaN"
| "float_add PosInf NegInf = NaN"
| "float_add NegInf PosInf = NaN"
| "float_add PosInf _ = PosInf"
| "float_add NegInf _ = NegInf"
| "float_add _ PosInf = PosInf"
| "float_add _ NegInf = NegInf"

subsection \<open>JSON values\<close>

text \<open>
  What \<^verbatim>\<open>request.get_json()\<close>, \<^verbatim>\<open>response.json()\<close> and
  \<^verbatim>\<open>json.load\<close> return: \<^verbatim>\<open>None\<close>, a bool, an int, a float, a str, a list or a
  dict with string keys. A dict is an association list in insertion order; the first
  binding of a key is the one that counts.
\<close>

datatype json =
    JNull
  | JBool bool
  | JInt int
  | JFloat pyfloat
  | JStr string
  | JArr "json list"
  | JObj "(string \<times> json) list"

type_synonym pydict = "(string \<times> json) list"

text \<open>The substring test that \<^verbatim>\<open>in\<close> performs on two strings.\<close>

fun is_prefix :: "string \<Rightarrow> string \<Rightarrow> bool" where
  "is_prefix [] ys = True"
| "is_prefix (x # xs) [] = False"
| "is_prefix (x # xs) (y # ys) = (x = y \<and> is_prefix xs ys)"

fun is_substring :: "string \<Rightarrow> string \<Rightarrow> bool" where
  "is_substring xs [] = (xs = [])"
| "is_substring xs (y # ys) = (is_prefix xs (y # ys) \<or> is_substring xs ys)"

text \<open>
  \<^verbatim>\<open>k in data\<close> for a string \<open>k\<close>: key membership in a dict, element membership in a
  list, the substring test in a string; on any other value Python raises TypeError,
  which is \<open>None\<close> here.
\<close>

fun py_in :: "string \<Rightarrow> json \<Rightarrow> bool option" where
  "py_in k (JObj kvs) = Some (map_of kvs k \<noteq> None)"
| "py_in k (JArr xs) = Some (List.member xs (JStr k))"
| "py_in k (JStr s) = Some (is_substring k s)"
| "py_in k _ = None"

text \<open>
  \<^verbatim>\<open>data[k]\<close> for a string \<open>k\<close>: the value in a dict, KeyError when the key is
  missing, TypeError on every other value (a list or a string takes integer indices).
  \<open>None\<close> is the exception.
\<close>

fun py_getitem :: "json \<Rightarrow> string \<Rightarrow> json option" where
  "py_getitem (JObj kvs) k = map_of kvs k"
| "py_getitem _ k = None"

text \<open>
  \<^verbatim>\<open>data.get(k, default)\<close>: only a dict has the method; on any other value Python
  raises AttributeError, which is \<open>None\<close> here.
\<close>

fun py_get :: "json \<Rightarrow> string \<Rightarrow> json \<Rightarrow> json option" where
  "py_get (JObj kvs) k d = Some (case map_of kvs k of None \<Rightarrow> d | Some v \<Rightarrow> v)"
| "py_get _ k d = None"

text \<open>
  \<^verbatim>\<open>x + v\<close> for a float \<open>x\<close> and a JSON value \<open>v\<close>: a float is added, an int or a
  bool (an int in Python) is converted first, and the conversion of an int beyond the
  float range raises OverflowError; any other operand raises TypeError.
\<close>

fun py_float_plus :: "pyfloat \<Rightarrow> json \<Rightarrow> pyfloat option" where
  "py_float_plus x (JFloat y) = Some (float_add x y)"
| "py_float_plus x (JInt i) =
     (case fl (of_int i) of Fin r \<Rightarrow> Some (float_add x (Fin r)) | _ \<Rightarrow> None)"
| "py_float_plus x (JBool b) = Some (float_add x (Fin (if b then 1 else 0)))"
| "py_float_plus x _ = None"

section \<open>Weather: the cache key\<close>

text \<open>
  A string is the list of its bytes in UTF-8, so a string of ASCII characters is the list
  of these characters and any other string has a byte from 128 on. On a string of ASCII
  characters \<^verbatim>\<open>str.lower()\<close> maps the capital letters A to Z to the small ones and
  keeps every other character. On any other string it follows the case tables of Unicode,
  some of them sensitive to the context; the theory does not follow it there and leaves
  the result open. \<^verbatim>\<open>.replace(' ', '_')\<close> replaces the space character and nothing
  else, on every string.
\<close>

definition is_ascii :: "char \<Rightarrow> bool" where
  "is_ascii c = ((of_char c :: nat) < 128)"

definition ascii_only :: "string \<Rightarrow> bool" where
  "ascii_only s = list_all is_ascii s"

definition is_upper :: "char \<Rightarrow> bool" where
  "is_upper c = ((65 :: nat) \<le> of_char c \<and> of_char c \<le> (90 :: nat))"

definition lower_char :: "char \<Rightarrow> char" where
  "lower_char c = (if is_upper c then char_of (of_char c + (32 :: nat)) else c)"

definition lower :: "string \<Rightarrow> string" where
  "lower s = (if ascii_only s then map lower_char s else undefined s)"

definition replace_space :: "string \<Rightarrow> string" where
  "replace_space s = map (\<lambda>c. if c = CHR '' '' then CHR ''_'' else c) s"

text \<open>\<^verbatim>\<open>cache_key = f"weather_{location.lower().replace(' ', '_')}"\<close>\<close>

definition cache_key :: "string \<Rightarrow> string" where
  "cache_key location = ''weather_'' @ replace_space (lower location)"

text \<open>
  Two characters that a reader takes for the same up to letter case and to the choice
  between a space and an underscore, and strings that agree in this way position by
  position.
\<close>

definition same_char :: "char \<Rightarrow> char \<Rightarrow> bool" where
  "same_char c d =
     (c = d \<or> (is_upper c \<and> d = lower_char c) \<or> (is_upper d \<and> c = lower_char d)
      \<or> (c = CHR '' '' \<and> d = CHR ''_'') \<or> (c = CHR ''_'' \<and> d = CHR '' ''))"

definition same_location :: "string \<Rightarrow> string \<Rightarrow> bool" where
  "same_location a b = list_all2 same_char a b"

text \<open>The white space characters of ASCII: space, tab, line feed, vertical tab, form
  feed, carriage return.\<close>

definition is_space :: "char \<Rightarrow> bool" where
  "is_space c = ((of_char c :: nat) \<in> {32, 9, 10, 11, 12, 13})"

text \<open>Strings that differ only in which white space character stands at a position.\<close>

definition differ_in_whitespace_only :: "string \<Rightarrow> string \<Rightarrow> bool" where
  "differ_in_whitespace_only a b = list_all2 (\<lambda>c d. c = d \<or> (is_space c \<and> is_space d)) a b"

section \<open>The booking wizard\<close>

subsection \<open>Data\<close>

text \<open>
  The columns of the tables \<^verbatim>\<open>service\<close> and \<^verbatim>\<open>booking\<close> that the wizard reads
  and writes. The primary key of a booking, its \<^verbatim>\<open>created_at\<close> and its
  \<^verbatim>\<open>step_completed\<close> are filled in by the store and are left out.
\<close>

record datetime =
  year :: nat
  month :: nat
  day :: nat
  hour :: nat
  minute :: nat

record service =
  svc_id :: int
  svc_name :: string
  description :: string
  price :: pyfloat
  duration_hours :: int
  active :: bool

record booking =
  user_id :: int
  service_id :: int
  scheduled_date :: datetime
  status :: string
  special_instructions :: json
  total_price :: pyfloat

text \<open>
  What one request sees of the outside: the answer of \<^verbatim>\<open>Service.query.get\<close> (the
  outer \<open>None\<close> is an exception of the store, \<open>Some None\<close> is no such row),
  \<^verbatim>\<open>datetime.strptime\<close> with the format \<^verbatim>\<open>"%Y-%m-%d %H:%M"\<close> (\<open>None\<close> is
  ValueError), \<^verbatim>\<open>str\<close> on a JSON value that is not a string, and whether
  \<^verbatim>\<open>db.session.commit()\<close> goes through.
\<close>

record world =
  service_query_get :: "json \<Rightarrow> service option option"
  strptime :: "string \<Rightarrow> datetime option"
  str_of :: "json \<Rightarrow> string"
  commit_succeeds :: bool

text \<open>
  The state between requests: the entry \<^verbatim>\<open>booking_data\<close> of the session as the
  session cookie holds it (the draft, a dict), the committed rows of the table
  \<^verbatim>\<open>booking\<close>, and the rows added to \<^verbatim>\<open>db.session\<close> and not yet committed.
\<close>

record app =
  booking_data :: "pydict option"
  bookings :: "booking list"
  pending :: "booking list"

datatype request = GET | POST "json option"

text \<open>
  The argument of \<open>POST\<close> is what \<^verbatim>\<open>request.get_json()\<close> gives: \<open>None\<close> when it
  raises. A response is \<^verbatim>\<open>jsonify\<close> of a dict with its HTTP status, a redirect to an
  endpoint, or a rendered template with the draft it is given.
\<close>

datatype response =
    Jsonify pydict nat
  | Redirect string
  | Render_template string "pydict option"

text \<open>How a \<^verbatim>\<open>try\<close> block ends: by \<^verbatim>\<open>return\<close>, by an exception, or by running to
  its end.\<close>

datatype 'a flow = Return 'a | Raise | Fall_through

definition success_true :: response where
  "success_true = Jsonify [(''success'', JBool True)] 200"

definition no_booking_data :: response where
  "no_booking_data =
     Jsonify [(''success'', JBool False), (''message'', JStr ''No booking data found'')] 200"

definition error_processing :: response where
  "error_processing =
     Jsonify [(''success'', JBool False), (''message'', JStr ''Error processing request'')] 200"

definition service_not_found :: response where
  "service_not_found =
     Jsonify [(''success'', JBool False), (''message'', JStr ''Service not found'')] 200"

definition booking_confirmed :: response where
  "booking_confirmed =
     Jsonify [(''success'', JBool True), (''message'', JStr ''Booking confirmed successfully!'')] 200"

definition error_confirming :: response where
  "error_confirming =
     Jsonify [(''success'', JBool False), (''message'', JStr ''Error confirming booking'')] 200"

text \<open>
  Flask keeps the session in a signed cookie. A request works on its own copy of the
  session, and the copy is sent back as the new cookie only when the session was marked
  as modified. An assignment to a key of the session and a \<^verbatim>\<open>pop\<close> of a key that is
  there mark it; a write into the dict stored under a key
  (\<^verbatim>\<open>session['booking_data'][k] = v\<close>, \<^verbatim>\<open>session['booking_data'].update(...)\<close>)
  does not, and the code never sets \<^verbatim>\<open>session.modified\<close> itself. So
  \<open>save_session modified s s1\<close> is the state after a request that started in \<open>s\<close> and
  whose own copy ended as \<open>s1\<close>.
\<close>

definition save_session :: "bool \<Rightarrow> app \<Rightarrow> app \<Rightarrow> app" where
  "save_session modified s s1 = (if modified then s1 else s1\<lparr>booking_data := booking_data s\<rparr>)"

text \<open>\<^verbatim>\<open>d.get(k, default)\<close> on the draft, which is a dict.\<close>

definition dict_get :: "pydict \<Rightarrow> string \<Rightarrow> json \<Rightarrow> json" where
  "dict_get d k dflt = (case map_of d k of None \<Rightarrow> dflt | Some v \<Rightarrow> v)"

subsection \<open>Step 2: the service, then the products\<close>

text \<open>
  The \<^verbatim>\<open>try\<close> block of the handler acts on the request's copy of the session; the
  third component of its result tells whether the session was marked as modified.
\<close>

definition booking_step2_try :: "json option \<Rightarrow> app \<Rightarrow> response flow \<times> app \<times> bool" where
  "booking_step2_try body s =
     (case body of
        None \<Rightarrow> (Raise, s, False)
      | Some data \<Rightarrow>
          (case py_in ''service_id'' data of
             None \<Rightarrow> (Raise, s, False)
           | Some True \<Rightarrow>
               (case py_getitem data ''service_id'' of
                  None \<Rightarrow> (Raise, s, False)
                | Some i \<Rightarrow>
                    (case py_getitem data ''service_name'' of
                       None \<Rightarrow> (Raise, s, False)
                     | Some n \<Rightarrow>
                         (case py_getitem data ''price'' of
                            None \<Rightarrow> (Raise, s, False)
                          | Some p \<Rightarrow>
                              (Return success_true,
                               s\<lparr>booking_data :=
                                    Some [(''service_id'', i), (''service_name'', n),
                                          (''price'', p)]\<rparr>,
                               True))))
           | Some False \<Rightarrow>
               (case py_in ''products'' data of
                  None \<Rightarrow> (Raise, s, False)
                | Some False \<Rightarrow> (Fall_through, s, False)
                | Some True \<Rightarrow>
                    (case booking_data s of
                       None \<Rightarrow> (Return no_booking_data, s, False)
                     | Some d \<Rightarrow>
                         (case py_getitem data ''products'' of
                            None \<Rightarrow> (Raise, s, False)
                          | Some ps \<Rightarrow>
                              (let d1 = AList.update ''products'' ps d;
                                   s1 = s\<lparr>booking_data := Some d1\<rparr>
                               in case py_get data ''products_total'' (JInt 0) of
                                    None \<Rightarrow> (Raise, s1, False)
                                  | Some t \<Rightarrow>
                                      (Return success_true,
                                       s1\<lparr>booking_data :=
                                            Some (AList.update ''products_total'' t d1)\<rparr>,
                                       False)))))))"

text \<open>The part after the \<^verbatim>\<open>if request.method == 'POST'\<close> block.\<close>

definition booking_step2_page :: "app \<Rightarrow> response" where
  "booking_step2_page s =
     (case booking_data s of
        None \<Rightarrow> Redirect ''booking_step1''
      | Some d \<Rightarrow> Render_template ''booking_step2.html'' (Some d))"

definition booking_step2 :: "request \<Rightarrow> app \<Rightarrow> response \<times> app" where
  "booking_step2 req s =
     (case req of
        GET \<Rightarrow> (booking_step2_page s, s)
      | POST body \<Rightarrow>
          (case booking_step2_try body s of
             (Return r, s1, m) \<Rightarrow> (r, save_session m s s1)
           | (Raise, s1, m) \<Rightarrow> (error_processing, save_session m s s1)
           | (Fall_through, s1, m) \<Rightarrow> (booking_step2_page s1, save_session m s s1)))"

subsection \<open>Step 3: the schedule\<close>

definition booking_step3_try :: "json option \<Rightarrow> app \<Rightarrow> response flow \<times> app \<times> bool" where
  "booking_step3_try body s =
     (case body of
        None \<Rightarrow> (Raise, s, False)
      | Some data \<Rightarrow>
          (case booking_data s of
             None \<Rightarrow> (Return no_booking_data, s, False)
           | Some d \<Rightarrow>
               (case py_getitem data ''scheduled_date'' of
                  None \<Rightarrow> (Raise, s, False)
                | Some sd \<Rightarrow>
                    (case py_getitem data ''scheduled_time'' of
                       None \<Rightarrow> (Raise, s, False)
                     | Some st \<Rightarrow>
                         (case py_get data ''special_instructions'' (JStr []) of
                            None \<Rightarrow> (Raise, s, False)
                          | Some si \<Rightarrow>
                              (Return success_true,
                               s\<lparr>booking_data :=
                                    Some (AList.update ''special_instructions'' si
                                           (AList.update ''scheduled_time'' st
                                             (AList.update ''scheduled_date'' sd d)))\<rparr>,
                               False))))))"

definition booking_step3_page :: "app \<Rightarrow> response" where
  "booking_step3_page s =
     (case booking_data s of
        None \<Rightarrow> Redirect ''booking_step1''
      | Some d \<Rightarrow> Render_template ''booking_step3.html'' (Some d))"

definition booking_step3 :: "request \<Rightarrow> app \<Rightarrow> response \<times> app" where
  "booking_step3 req s =
     (case req of
        GET \<Rightarrow> (booking_step3_page s, s)
      | POST body \<Rightarrow>
          (case booking_step3_try body s of
             (Return r, s1, m) \<Rightarrow> (r, save_session m s s1)
           | (Raise, s1, m) \<Rightarrow> (error_processing, save_session m s s1)
           | (Fall_through, s1, m) \<Rightarrow> (booking_step3_page s1, save_session m s s1)))"

subsection \<open>Step 4: the Finalizer\<close>

text \<open>A value inside the f-string: a string as it is, anything else through \<^verbatim>\<open>str\<close>.\<close>

definition fstring_value :: "world \<Rightarrow> json \<Rightarrow> string" where
  "fstring_value w v = (case v of JStr t \<Rightarrow> t | _ \<Rightarrow> str_of w v)"

definition booking_step4_try :: "world \<Rightarrow> int \<Rightarrow> pydict \<Rightarrow> app \<Rightarrow> response flow \<times> app" where
  "booking_step4_try w uid d s =
     (case map_of d ''service_id'' of
        None \<Rightarrow> (Raise, s)
      | Some sid \<Rightarrow>
          (case service_query_get w sid of
             None \<Rightarrow> (Raise, s)
           | Some None \<Rightarrow> (Return service_not_found, s)
           | Some (Some svc) \<Rightarrow>
               (case map_of d ''scheduled_date'' of
                  None \<Rightarrow> (Raise, s)
                | Some sd \<Rightarrow>
                    (case map_of d ''scheduled_time'' of
                       None \<Rightarrow> (Raise, s)
                     | Some st \<Rightarrow>
                         (case strptime w (fstring_value w sd @ '' '' @ fstring_value w st) of
                            None \<Rightarrow> (Raise, s)
                          | Some scheduled_datetime \<Rightarrow>
                              (case py_float_plus (price svc)
                                      (dict_get d ''products_total'' (JInt 0)) of
                                 None \<Rightarrow> (Raise, s)
                               | Some tot \<Rightarrow>
                                   (let b = \<lparr>user_id = uid, service_id = svc_id svc,
                                             scheduled_date = scheduled_datetime,
                                             status = ''confirmed'',
                                             special_instructions =
                                               dict_get d ''special_instructions'' (JStr []),
                                             total_price = tot\<rparr>;
                                        s1 = s\<lparr>pending := pending s @ [b]\<rparr>
                                    in if commit_succeeds w
                                       then (Return booking_confirmed,
                                             s1\<lparr>bookings := bookings s1 @ pending s1,
                                                pending := [],
                                                booking_data := None\<rparr>)
                                       else (Raise, s1))))))))"

text \<open>
  The handler: without a draft it redirects, whatever the method; the
  \<^verbatim>\<open>except\<close> clause rolls the transaction back, which drops the pending rows. Its
  one write to the session is \<^verbatim>\<open>session.pop('booking_data', None)\<close> with the key
  there, which marks the session as modified: the cleared draft is what the next request
  sees.
\<close>

definition booking_step4 :: "world \<Rightarrow> int \<Rightarrow> request \<Rightarrow> app \<Rightarrow> response \<times> app" where
  "booking_step4 w uid req s =
     (case booking_data s of
        None \<Rightarrow> (Redirect ''booking_step1'', s)
      | Some d \<Rightarrow>
          (case req of
             GET \<Rightarrow> (Render_template ''booking_step4.html'' (Some d), s)
           | POST body \<Rightarrow>
               (case booking_step4_try w uid d s of
                  (Return r, s1) \<Rightarrow> (r, s1)
                | (Raise, s1) \<Rightarrow> (error_confirming, s1\<lparr>pending := []\<rparr>)
                | (Fall_through, s1) \<Rightarrow>
                    (Render_template ''booking_step4.html'' (booking_data s1), s1))))"

text \<open>The page \<^verbatim>\<open>/products\<close> starts a draft of its own, with a default service.\<close>

definition products :: "app \<Rightarrow> response \<times> app" where
  "products s =
     (Render_template ''products.html'' None,
      s\<lparr>booking_data :=
           Some [(''service_id'', JInt 1), (''service_name'', JStr ''Product Purchase''),
                 (''price'', JInt 0)]\<rparr>)"

subsection \<open>Sequences of draft operations\<close>

text \<open>
  The four operations on a draft, each one the request that performs it:
  chooseService and chooseProducts post to step 2, schedule posts to step 3, and confirm
  posts to step 4 (it carries what that request sees of the outside).
\<close>

datatype draft_op =
    Choose_service json json json
  | Choose_products json "json option"
  | Schedule json json "json option"
  | Confirm world

fun is_choose_service :: "draft_op \<Rightarrow> bool" where
  "is_choose_service (Choose_service i n p) = True"
| "is_choose_service _ = False"

definition optional_field :: "string \<Rightarrow> json option \<Rightarrow> pydict" where
  "optional_field k v = (case v of None \<Rightarrow> [] | Some x \<Rightarrow> [(k, x)])"

fun apply_draft_op :: "int \<Rightarrow> draft_op \<Rightarrow> app \<Rightarrow> response \<times> app" where
  "apply_draft_op uid (Choose_service i n p) s =
     booking_step2
       (POST (Some (JObj [(''service_id'', i), (''service_name'', n), (''price'', p)]))) s"
| "apply_draft_op uid (Choose_products ps t) s =
     booking_step2
       (POST (Some (JObj ((''products'', ps) # optional_field ''products_total'' t)))) s"
| "apply_draft_op uid (Schedule sd st si) s =
     booking_step3
       (POST (Some (JObj ([(''scheduled_date'', sd), (''scheduled_time'', st)]
                          @ optional_field ''special_instructions'' si)))) s"
| "apply_draft_op uid (Confirm w) s = booking_step4 w uid (POST None) s"

fun run_draft_ops :: "int \<Rightarrow> draft_op list \<Rightarrow> app \<Rightarrow> response list \<times> app" where
  "run_draft_ops uid [] s = ([], s)"
| "run_draft_ops uid (x # xs) s =
     (case apply_draft_op uid x s of
        (r, s1) \<Rightarrow> (case run_draft_ops uid xs s1 of (rs, s2) \<Rightarrow> (r # rs, s2)))"

text \<open>The two shapes in which a missing draft is reported.\<close>

definition is_no_draft_error :: "response \<Rightarrow> bool" where
  "is_no_draft_error r = (r = no_booking_data \<or> r = Redirect ''booking_step1'')"

section \<open>The weather gateway\<close>

subsection \<open>The cache file\<close>

text \<open>
  An entry of the cache is \<^verbatim>\<open>{'data': ..., 'timestamp': ...}\<close>. The timestamp is the
  ISO text of a \<^verbatim>\<open>datetime.now()\<close>; it is kept as that instant, in microseconds on
  the local clock, which is what \<^verbatim>\<open>datetime.fromisoformat\<close> gives back.
\<close>

record cache_entry =
  entry_data :: json
  entry_timestamp :: int

type_synonym cache = "(string \<times> cache_entry) list"

text \<open>
  The file \<^verbatim>\<open>weather_cache.json\<close>: missing, holding the whole JSON text of a cache
  (what a finished \<^verbatim>\<open>json.dump\<close> leaves), or torn: empty or cut short, which
  \<^verbatim>\<open>json.load\<close> rejects.
\<close>

datatype disk_file = Missing | Torn | Json_text cache

fun load_weather_cache :: "disk_file \<Rightarrow> cache" where
  "load_weather_cache Missing = []"
| "load_weather_cache Torn = []"
| "load_weather_cache (Json_text c) = c"

text \<open>
  \<^verbatim>\<open>with open(cache_file, 'w') as f: json.dump(cache_data, f, indent=2)\<close> acts on
  the file in two steps: opening it for writing truncates it, then the text is written
  and the file closed.
\<close>

datatype file_op = Open_for_writing | Dump_and_close cache

fun apply_file_op :: "file_op \<Rightarrow> disk_file \<Rightarrow> disk_file" where
  "apply_file_op Open_for_writing f = Torn"
| "apply_file_op (Dump_and_close c) f = Json_text c"

definition save_weather_cache_ops :: "cache \<Rightarrow> file_op list" where
  "save_weather_cache_ops cache_data = [Open_for_writing, Dump_and_close cache_data]"

text \<open>The file when only the first \<open>k\<close> steps of a save have taken place.\<close>

definition file_after_steps :: "nat \<Rightarrow> cache \<Rightarrow> disk_file \<Rightarrow> disk_file" where
  "file_after_steps k cache_data f = fold apply_file_op (take k (save_weather_cache_ops cache_data)) f"

text \<open>
  A save goes through, or \<^verbatim>\<open>open\<close> raises (the file is not touched), or the
  write raises after the file was opened; the function catches and logs either exception.
\<close>

datatype write_outcome = Write_completes | Open_raises | Dump_raises

fun steps_done :: "write_outcome \<Rightarrow> nat" where
  "steps_done Write_completes = 2"
| "steps_done Open_raises = 0"
| "steps_done Dump_raises = 1"

definition save_weather_cache :: "write_outcome \<Rightarrow> cache \<Rightarrow> disk_file \<Rightarrow> disk_file" where
  "save_weather_cache outcome cache_data f = file_after_steps (steps_done outcome) cache_data f"

text \<open>A file is valid when it can be loaded back: it is not torn.\<close>

definition file_valid :: "disk_file \<Rightarrow> bool" where
  "file_valid f = (f \<noteq> Torn)"

text \<open>\<^verbatim>\<open>datetime.now() - cache_time < timedelta(hours=2)\<close>, in microseconds.\<close>

definition is_cache_valid :: "int \<Rightarrow> int \<Rightarrow> bool" where
  "is_cache_valid now cached_time = (now - cached_time < 7200000000)"

subsection \<open>The lookup\<close>

definition get_mock_weather_data :: "string \<Rightarrow> json" where
  "get_mock_weather_data location =
     JObj [(''location'',
            JObj [(''name'', JStr location), (''region'', JStr ''Local Area''),
                  (''country'', JStr ''United States'')]),
           (''current'',
            JObj [(''temperature'', JInt 72),
                  (''weather_descriptions'', JArr [JStr ''Partly Cloudy'']),
                  (''weather_icons'',
                   JArr [JStr ''https://assets.weatherstack.com/images/wsymbols01_png_64/wsymbol_0002_sunny_intervals.png'']),
                  (''humidity'', JInt 65), (''wind_speed'', JInt 8),
                  (''wind_dir'', JStr ''SW''), (''uv_index'', JInt 5),
                  (''visibility'', JInt 10)])]"

text \<open>
  What \<^verbatim>\<open>requests.get\<close> does: it raises a RequestException, or it returns a response
  with a status code and a body that \<^verbatim>\<open>response.json()\<close> decodes or rejects.
\<close>

datatype body = Body json | Not_json

datatype provider_result = Request_exception | Response nat body

text \<open>
  What one call of the endpoint sees of the outside: the provider, whether the error of
  \<^verbatim>\<open>response.json()\<close> is a RequestException (it is in the current releases of the
  library, it was a plain ValueError in older ones), how a save of the cache file ends,
  and the three readings of the clock: in \<^verbatim>\<open>is_cache_valid\<close>, for the new cache
  entry, and for the reply.
\<close>

record weather_world =
  provider :: provider_result
  json_error_is_request_exception :: bool
  write_outcome :: write_outcome
  now_valid :: int
  now_entry :: int
  now_reply :: int

record weather_state =
  cache_file :: disk_file
  outbound_calls :: nat

text \<open>
  The reply \<^verbatim>\<open>{'success': True, 'data': ..., 'cached': ..., 'timestamp': ...}\<close>, with
  the key \<^verbatim>\<open>mock\<close> present (and true) when \<open>reply_mock\<close> holds; and the reply
  \<^verbatim>\<open>{'success': False, 'error': ...}\<close> with status 500.
\<close>

record weather_reply =
  reply_data :: json
  reply_cached :: bool
  reply_mock :: bool
  reply_timestamp :: int

datatype weather_result = Weather weather_reply | Unavailable

fun success :: "weather_result \<Rightarrow> bool" where
  "success (Weather r) = True"
| "success Unavailable = False"

fun is_mock :: "weather_result \<Rightarrow> bool" where
  "is_mock (Weather r) = reply_mock r"
| "is_mock Unavailable = False"

fun http_status :: "weather_result \<Rightarrow> nat" where
  "http_status (Weather r) = 200"
| "http_status Unavailable = 500"

text \<open>The entry under the key when it is there and \<^verbatim>\<open>is_cache_valid\<close> accepts it.\<close>

definition fresh_entry :: "weather_world \<Rightarrow> cache \<Rightarrow> string \<Rightarrow> cache_entry option" where
  "fresh_entry w cache k =
     (case map_of cache k of
        None \<Rightarrow> None
      | Some e \<Rightarrow> if is_cache_valid (now_valid w) (entry_timestamp e) then Some e else None)"

text \<open>
  The inner \<^verbatim>\<open>try\<close> block. A RequestException is caught there and the block is left
  at its end; any other exception goes on to the outer \<^verbatim>\<open>except\<close>. The warning
  about a provider error evaluates
  \<^verbatim>\<open>data.get('error', {}).get('info', 'Unknown error')\<close>.
\<close>

definition fetch_from_api ::
  "weather_world \<Rightarrow> string \<Rightarrow> cache \<Rightarrow> weather_state \<Rightarrow> weather_reply flow \<times> weather_state" where
  "fetch_from_api w k cache s =
     (let s1 = s\<lparr>outbound_calls := outbound_calls s + 1\<rparr>
      in case provider w of
           Request_exception \<Rightarrow> (Fall_through, s1)
         | Response code b \<Rightarrow>
             if code = 200 then
               (case b of
                  Not_json \<Rightarrow>
                    (if json_error_is_request_exception w then Fall_through else Raise, s1)
                | Body data \<Rightarrow>
                    (case py_in ''error'' data of
                       None \<Rightarrow> (Raise, s1)
                     | Some False \<Rightarrow>
                         (Return \<lparr>reply_data = data, reply_cached = False,
                                  reply_mock = False, reply_timestamp = now_reply w\<rparr>,
                          s1\<lparr>cache_file :=
                               save_weather_cache (write_outcome w)
                                 (AList.update k
                                    \<lparr>entry_data = data, entry_timestamp = now_entry w\<rparr> cache)
                                 (cache_file s1)\<rparr>)
                     | Some True \<Rightarrow>
                         (case py_get data ''error'' (JObj []) of
                            None \<Rightarrow> (Raise, s1)
                          | Some err \<Rightarrow>
                              (case py_get err ''info'' (JStr ''Unknown error'') of
                                 None \<Rightarrow> (Raise, s1)
                               | Some info \<Rightarrow> (Fall_through, s1)))))
             else (Fall_through, s1))"

text \<open>The endpoint; its argument is the query parameter \<^verbatim>\<open>location\<close>, if given.\<close>

definition get_weather ::
  "weather_world \<Rightarrow> string option \<Rightarrow> weather_state \<Rightarrow> weather_result \<times> weather_state" where
  "get_weather w arg s =
     (let location = (case arg of None \<Rightarrow> ''Miami, FL'' | Some l \<Rightarrow> l);
          cache = load_weather_cache (cache_file s);
          k = cache_key location
      in case fresh_entry w cache k of
           Some e \<Rightarrow>
             (Weather \<lparr>reply_data = entry_data e, reply_cached = True, reply_mock = False,
                       reply_timestamp = entry_timestamp e\<rparr>, s)
         | None \<Rightarrow>
             (case fetch_from_api w k cache s of
                (Return r, s1) \<Rightarrow> (Weather r, s1)
              | (Raise, s1) \<Rightarrow> (Unavailable, s1)
              | (Fall_through, s1) \<Rightarrow>
                  (Weather \<lparr>reply_data = get_mock_weather_data location,
                            reply_cached = False, reply_mock = True,
                            reply_timestamp = now_reply w\<rparr>, s1)))"

text \<open>The ways in which the claims say the provider fails.\<close>

definition provider_error_body :: "json \<Rightarrow> bool" where
  "provider_error_body data = (py_in ''error'' data = Some True)"

definition successful_response :: "provider_result \<Rightarrow> bool" where
  "successful_response p =
     (case p of
        Response code (Body data) \<Rightarrow> code = 200 \<and> py_in ''error'' data = Some False
      | _ \<Rightarrow> False)"

section \<open>Vocabulary of the properties\<close>

text \<open>A response reports failure when it is JSON with \<^verbatim>\<open>success\<close> false.\<close>

definition reports_failure :: "response \<Rightarrow> bool" where
  "reports_failure r =
     (case r of Jsonify b st \<Rightarrow> map_of b ''success'' = Some (JBool False) | _ \<Rightarrow> False)"

text \<open>
  The scenario of the specification: the service with id 3 is Weed Control at 65.0, as
  \<^verbatim>\<open>init_database\<close> creates it, the client chooses it, adds the product with id 2
  at 45.99, schedules 2025-06-01 09:00 and confirms. The float 45.99 is \<open>fl (4599 / 100)\<close>.
\<close>

definition empty_app :: app where
  "empty_app = \<lparr>booking_data = None, bookings = [], pending = []\<rparr>"

definition weed_control :: service where
  "weed_control =
     \<lparr>svc_id = 3, svc_name = ''Weed Control'',
      description = ''Professional weed control treatment'', price = Fin 65,
      duration_hours = 1, active = True\<rparr>"

definition june_first :: datetime where
  "june_first = \<lparr>year = 2025, month = 6, day = 1, hour = 9, minute = 0\<rparr>"

definition scenario_world :: world where
  "scenario_world =
     \<lparr>service_query_get = (\<lambda>k. Some (if k = JInt 3 then Some weed_control else None)),
      strptime = (\<lambda>t. if t = ''2025-06-01 09:00'' then Some june_first else None),
      str_of = (\<lambda>v. ''?''),
      commit_succeeds = True\<rparr>"


text \<open>
  The draft that the first three operations of the scenario set out to build, and the
  booking that the Finalizer makes of that draft.
\<close>

definition scenario_draft :: pydict where
  "scenario_draft =
     [(''service_id'', JInt 3), (''service_name'', JStr ''Weed Control''),
      (''price'', JFloat (Fin 65)),
      (''products'',
       JArr [JObj [(''id'', JInt 2),
                   (''price'', JFloat (Fin (6472517089461535 / 140737488355328)))]]),
      (''products_total'', JFloat (Fin (6472517089461535 / 140737488355328))),
      (''scheduled_date'', JStr ''2025-06-01''),
      (''scheduled_time'', JStr ''09:00''),
      (''special_instructions'', JStr [])]"

definition scenario_booking :: booking where
  "scenario_booking =
     \<lparr>user_id = 1, service_id = 3, scheduled_date = june_first, status = ''confirmed'',
      special_instructions = JStr [],
      total_price = Fin (488139182267433 / 4398046511104)\<rparr>"

text \<open>A draft with a service and a schedule and no products.\<close>

definition scheduled_app :: app where
  "scheduled_app =
     \<lparr>booking_data =
        Some [(''service_id'', JInt 3), (''service_name'', JStr ''Weed Control''),
              (''price'', JFloat (Fin 65)),
              (''scheduled_date'', JStr ''2025-06-01''),
              (''scheduled_time'', JStr ''09:00'')],
      bookings = [], pending = []\<rparr>"

text \<open>Operations on a draft with no chooseService among them.\<close>

definition no_service_ops :: "draft_op list" where
  "no_service_ops =
     [Choose_products (JArr []) (Some (JInt 0)),
      Schedule (JStr ''2025-06-01'') (JStr ''09:00'') None,
      Confirm scenario_world,
      Choose_products (JArr [JObj [(''id'', JInt 2)]]) None]"

text \<open>
  Two calls of the weather endpoint for Austin, an hour apart: the cache file is missing
  at first and the provider answers the first call; on the second call it is out of
  reach. Further worlds: the provider answers 200 with an \<^verbatim>\<open>error\<close> that is a string,
  it answers 500, and it answers 500 three hours after the entry was stored.
\<close>

definition cold_state :: weather_state where
  "cold_state = \<lparr>cache_file = Missing, outbound_calls = 0\<rparr>"

definition austin_data :: json where
  "austin_data =
     JObj [(''location'', JObj [(''name'', JStr ''Austin'')]),
           (''current'', JObj [(''temperature'', JInt 88)])]"

definition reachable_world :: weather_world where
  "reachable_world =
     \<lparr>provider = Response 200 (Body austin_data), json_error_is_request_exception = True,
      write_outcome = Write_completes, now_valid = 1000000, now_entry = 1000020,
      now_reply = 1000250\<rparr>"

definition later_world :: weather_world where
  "later_world =
     \<lparr>provider = Request_exception, json_error_is_request_exception = True,
      write_outcome = Write_completes, now_valid = 3600000000, now_entry = 3600000020,
      now_reply = 3600000250\<rparr>"

definition austin_cache :: cache where
  "austin_cache =
     [(''weather_austin,_tx'', \<lparr>entry_data = austin_data, entry_timestamp = 1000020\<rparr>)]"

definition warm_state :: weather_state where
  "warm_state = \<lparr>cache_file = Json_text austin_cache, outbound_calls = 1\<rparr>"

definition error_string_world :: weather_world where
  "error_string_world =
     \<lparr>provider = Response 200 (Body (JObj [(''error'', JStr ''usage limit reached'')])),
      json_error_is_request_exception = True,
      write_outcome = Write_completes, now_valid = 1000000, now_entry = 1000020,
      now_reply = 1000250\<rparr>"

definition http_500_world :: weather_world where
  "http_500_world =
     \<lparr>provider = Response 500 Not_json, json_error_is_request_exception = True,
      write_outcome = Write_completes, now_valid = 1000000, now_entry = 1000020,
      now_reply = 1000250\<rparr>"

definition stale_world :: weather_world where
  "stale_world =
     \<lparr>provider = Response 500 Not_json, json_error_is_request_exception = True,
      write_outcome = Write_completes, now_valid = 9000000000, now_entry = 9000000020,
      now_reply = 9000000250\<rparr>"

section \<open>Properties of the cache key\<close>

lemma lower_char_not_upper: "\<not> is_upper (lower_char c)"
  by (auto simp: lower_char_def is_upper_def)

lemma lower_char_idem: "lower_char (lower_char c) = lower_char c"
  using lower_char_not_upper [of c] by (simp add: lower_char_def [of "lower_char c"])

lemma of_char_lower_char:
  assumes "is_upper c"
  shows "(of_char (lower_char c) :: nat) = of_char c + 32"
  using assms by (simp add: lower_char_def is_upper_def)

lemma lower_char_inj_upper:
  assumes "is_upper c" and "is_upper d" and "lower_char c = lower_char d"
  shows "c = d"
proof -
  from assms have "(of_char c :: nat) + 32 = of_char d + 32"
    by (metis of_char_lower_char)
  then have "(of_char c :: nat) = of_char d"
    by simp
  then show ?thesis
    by simp
qed

lemma lower_char_fixed:
  assumes "\<not> is_upper c"
  shows "lower_char c = c"
  using assms by (simp add: lower_char_def)

lemma lower_char_space: "lower_char c = CHR '' '' \<longleftrightarrow> c = CHR '' ''"
proof
  assume h: "lower_char c = CHR '' ''"
  show "c = CHR '' ''"
  proof (cases "is_upper c")
    case True
    from of_char_lower_char [OF True] h True show ?thesis
      by (simp add: is_upper_def)
  next
    case False
    with h show ?thesis by (simp add: lower_char_def)
  qed
next
  assume "c = CHR '' ''"
  then show "lower_char c = CHR '' ''"
    by (simp add: lower_char_def is_upper_def)
qed

lemma lower_char_underscore: "lower_char c = CHR ''_'' \<longleftrightarrow> c = CHR ''_''"
proof
  assume h: "lower_char c = CHR ''_''"
  show "c = CHR ''_''"
  proof (cases "is_upper c")
    case True
    from of_char_lower_char [OF True] h True show ?thesis
      by (simp add: is_upper_def)
  next
    case False
    with h show ?thesis by (simp add: lower_char_def)
  qed
next
  assume "c = CHR ''_''"
  then show "lower_char c = CHR ''_''"
    by (simp add: lower_char_def is_upper_def)
qed

lemma not_upper_space: "\<not> is_upper CHR '' ''" "\<not> is_upper CHR ''_''"
  by (simp_all add: is_upper_def)

lemma lower_char_eq_iff:
  "lower_char c = lower_char d
   \<longleftrightarrow> c = d \<or> (is_upper c \<and> d = lower_char c) \<or> (is_upper d \<and> c = lower_char d)"
proof
  assume e: "lower_char c = lower_char d"
  show "c = d \<or> (is_upper c \<and> d = lower_char c) \<or> (is_upper d \<and> c = lower_char d)"
  proof (cases "is_upper c")
    case True
    show ?thesis
    proof (cases "is_upper d")
      case True
      from \<open>is_upper c\<close> True e have "c = d" by (rule lower_char_inj_upper)
      then show ?thesis by blast
    next
      case False
      then have "lower_char d = d" by (rule lower_char_fixed)
      with e True show ?thesis by simp
    qed
  next
    case False
    then have c: "lower_char c = c" by (rule lower_char_fixed)
    show ?thesis
    proof (cases "is_upper d")
      case True
      with e c show ?thesis by simp
    next
      case False
      then have "lower_char d = d" by (rule lower_char_fixed)
      with e c show ?thesis by simp
    qed
  qed
next
  assume "c = d \<or> (is_upper c \<and> d = lower_char c) \<or> (is_upper d \<and> c = lower_char d)"
  then consider "c = d" | "d = lower_char c" | "c = lower_char d" by blast
  then show "lower_char c = lower_char d"
  proof cases
    case 1
    then show ?thesis by simp
  next
    case 2
    then have "lower_char d = lower_char (lower_char c)" by simp
    then show ?thesis by (simp only: lower_char_idem)
  next
    case 3
    then have "lower_char c = lower_char (lower_char d)" by simp
    then show ?thesis by (simp only: lower_char_idem)
  qed
qed

lemma key_char_iff:
  "((if lower_char c = CHR '' '' then CHR ''_'' else lower_char c)
    = (if lower_char d = CHR '' '' then CHR ''_'' else lower_char d))
   \<longleftrightarrow> same_char c d"
proof -
  let ?k = "\<lambda>c. if lower_char c = CHR '' '' then CHR ''_'' else lower_char c"
  have blank: "?k x = CHR ''_'' \<longleftrightarrow> x = CHR '' '' \<or> x = CHR ''_''" for x
    by (simp add: lower_char_space lower_char_underscore)
  have other: "?k x = lower_char x" if "x \<noteq> CHR '' ''" for x
    using that by (simp add: lower_char_space)
  have fixed: "lower_char x = x" if "x = CHR '' '' \<or> x = CHR ''_''" for x
    using that not_upper_space by (auto intro: lower_char_fixed)
  have up: "x \<noteq> CHR '' '' \<and> x \<noteq> CHR ''_''" if "is_upper x" for x
    using that not_upper_space by auto
  have low: "lower_char x \<noteq> CHR '' '' \<and> lower_char x \<noteq> CHR ''_''"
    if "x \<noteq> CHR '' ''" "x \<noteq> CHR ''_''" for x
    using that by (simp add: lower_char_space lower_char_underscore)
  consider (cb) "c = CHR '' '' \<or> c = CHR ''_''"
    | (db) "c \<noteq> CHR '' ''" "c \<noteq> CHR ''_''" "d = CHR '' '' \<or> d = CHR ''_''"
    | (nb) "c \<noteq> CHR '' ''" "c \<noteq> CHR ''_''" "d \<noteq> CHR '' ''" "d \<noteq> CHR ''_''"
    by blast
  then show ?thesis
  proof cases
    case cb
    then have "?k c = CHR ''_''" by (simp only: blank)
    then have l: "?k c = ?k d \<longleftrightarrow> d = CHR '' '' \<or> d = CHR ''_''"
      using blank [of d] by metis
    have "same_char c d \<longleftrightarrow> d = CHR '' '' \<or> d = CHR ''_''"
      unfolding same_char_def using cb fixed [of c] fixed [of d] up [of c] up [of d] low [of d]
      by metis
    with l show ?thesis by simp
  next
    case db
    then have "?k d = CHR ''_''" by (simp only: blank)
    moreover have "?k c \<noteq> CHR ''_''" using db by (simp only: blank) simp
    ultimately have l: "?k c \<noteq> ?k d" by metis
    have "\<not> same_char c d"
      unfolding same_char_def using db fixed [of d] up [of d] low [of c]
      by metis
    with l show ?thesis by simp
  next
    case nb
    have "?k c = ?k d \<longleftrightarrow> lower_char c = lower_char d"
      using nb by (simp add: other)
    also have "\<dots> \<longleftrightarrow> same_char c d"
      unfolding same_char_def lower_char_eq_iff using nb by blast
    finally show ?thesis .
  qed
qed

lemma cache_key_by_char:
  assumes "ascii_only s"
  shows "cache_key s =
     ''weather_'' @ map (\<lambda>c. if lower_char c = CHR '' '' then CHR ''_'' else lower_char c) s"
  using assms by (simp add: cache_key_def replace_space_def lower_def comp_def)

text \<open>
  C8, amended, for locations of ASCII characters: two such locations have the same cache
  key exactly when they have the same length and agree position by position up to the
  case of a letter from A to Z and up to the choice between a space and an underscore.
  So the key does not depend on the case of these letters, a space counts as an
  underscore, and nothing else is identified: not a tab or a line feed with a space, and
  not two spaces with one.
\<close>

theorem cache_key_same_location:
  assumes "ascii_only a" and "ascii_only b"
  shows "cache_key a = cache_key b \<longleftrightarrow> same_location a b"
proof -
  let ?k = "\<lambda>c. if lower_char c = CHR '' '' then CHR ''_'' else lower_char c"
  have "cache_key a = cache_key b \<longleftrightarrow> map ?k a = map ?k b"
    using assms by (simp add: cache_key_by_char)
  also have "\<dots> \<longleftrightarrow> list_all2 (\<lambda>c d. ?k c = ?k d) a b"
    by (simp add: list_all2_eq [of "map ?k a"] list_all2_map1 list_all2_map2)
  also have "\<dots> \<longleftrightarrow> same_location a b"
    by (simp only: key_char_iff same_location_def)
  finally show ?thesis .
qed

text \<open>
  C8, as the claim states it, fails: a tab and a space are both white space, yet the
  ASCII locations \<^verbatim>\<open>"Austin\tTX"\<close> and \<^verbatim>\<open>"Austin TX"\<close> get different keys, since only
  the space character is replaced.
\<close>

theorem cache_key_whitespace_counterexample:
  "differ_in_whitespace_only (''Austin'' @ [CHR 0x09] @ ''TX'') ''Austin TX''
   \<and> ascii_only (''Austin'' @ [CHR 0x09] @ ''TX'') \<and> ascii_only ''Austin TX''
   \<and> cache_key (''Austin'' @ [CHR 0x09] @ ''TX'') \<noteq> cache_key ''Austin TX''"
  by (simp add: differ_in_whitespace_only_def is_space_def cache_key_def replace_space_def
      lower_def lower_char_def is_upper_def ascii_only_def is_ascii_def)

theorem cache_key_same_location_witness:
  "ascii_only ''Austin TX'' \<and> ascii_only ''AUSTIN_tx''
   \<and> same_location ''Austin TX'' ''AUSTIN_tx''
   \<and> cache_key ''Austin TX'' = cache_key ''AUSTIN_tx''
   \<and> cache_key ''Austin TX'' = ''weather_austin_tx''
   \<and> ascii_only (''Austin'' @ [CHR 0x0A] @ ''TX'')
   \<and> \<not> same_location (''Austin'' @ [CHR 0x0A] @ ''TX'') ''Austin TX''
   \<and> cache_key (''Austin'' @ [CHR 0x0A] @ ''TX'') \<noteq> cache_key ''Austin TX''"
proof -
  have a: "ascii_only ''Austin TX''" "ascii_only ''AUSTIN_tx''"
    "ascii_only (''Austin'' @ [CHR 0x0A] @ ''TX'')"
    by code_simp+
  have h: "same_location ''Austin TX'' ''AUSTIN_tx''"
    by code_simp
  have n: "\<not> same_location (''Austin'' @ [CHR 0x0A] @ ''TX'') ''Austin TX''"
    by code_simp
  have k: "cache_key ''Austin TX'' = ''weather_austin_tx''"
    by code_simp
  from a h n k cache_key_same_location [OF a(1) a(2)] cache_key_same_location [OF a(3) a(1)]
  show ?thesis
    by simp
qed

section \<open>Float arithmetic at the values of the scenario\<close>

text \<open>
  The floats nearest to 0.1, 45.99 and 110.99, and the float sum of 65.0 and 45.99, as
  exact fractions: they are what Python prints for \<^verbatim>\<open>Fraction(0.1)\<close>,
  \<^verbatim>\<open>Fraction(45.99)\<close>, \<^verbatim>\<open>Fraction(110.99)\<close> and \<^verbatim>\<open>Fraction(65.0 + 45.99)\<close>.
\<close>

lemma fl_examples:
  "fl 65 = Fin 65"
  "fl (1 / 10) = Fin (3602879701896397 / 36028797018963968)"
  "fl (4599 / 100) = Fin (6472517089461535 / 140737488355328)"
  "fl (11099 / 100) = Fin (7810226916278927 / 70368744177664)"
  "float_add (Fin 65) (Fin (6472517089461535 / 140737488355328))
     = Fin (488139182267433 / 4398046511104)"
  by code_simp+

section \<open>Properties of the booking wizard\<close>

lemma responses_distinct:
  "booking_confirmed \<noteq> error_confirming" "booking_confirmed \<noteq> service_not_found"
  "error_confirming \<noteq> booking_confirmed" "service_not_found \<noteq> booking_confirmed"
  "booking_confirmed \<noteq> Redirect e" "booking_confirmed \<noteq> Render_template t d"
  "Redirect e \<noteq> booking_confirmed" "Render_template t d \<noteq> booking_confirmed"
  by (simp_all add: booking_confirmed_def error_confirming_def service_not_found_def)

lemma reports_failure_simps:
  "reports_failure error_confirming" "reports_failure service_not_found"
  "\<not> reports_failure booking_confirmed"
  by (simp_all add: reports_failure_def booking_confirmed_def error_confirming_def
      service_not_found_def)

subsection \<open>The Finalizer is atomic\<close>

lemma step4_try_cases:
  assumes "booking_step4_try w uid d s = (res, s1)"
  shows "(res = Return service_not_found \<and> s1 = s)
       \<or> (res = Raise \<and> bookings s1 = bookings s \<and> booking_data s1 = booking_data s)
       \<or> (commit_succeeds w \<and> res = Return booking_confirmed
           \<and> (\<exists>bk. bookings s1 = bookings s @ pending s @ [bk])
           \<and> pending s1 = [] \<and> booking_data s1 = None)"
  using assms unfolding booking_step4_try_def
  by (auto simp: Let_def split: option.splits if_splits)

lemma step4_try_no_commit:
  assumes "\<not> commit_succeeds w" and "booking_step4_try w uid d s = (res, s1)"
  shows "(res = Return service_not_found \<and> s1 = s) \<or> res = Raise"
  using assms unfolding booking_step4_try_def
  by (auto simp: Let_def split: option.splits if_splits)

text \<open>
  C1. A request starts with no pending row. Take any POST to step 4. If there is a draft
  and the commit cannot go through, the response reports failure. If the response is the
  confirmation, exactly one row was added to the committed bookings, the draft is gone
  and nothing is pending. With any other response the committed bookings and the draft
  are what they were and nothing is pending (the transaction was rolled back). So a
  booking is made exactly when the draft is cleared.
\<close>

theorem finalizer_atomic:
  assumes run: "booking_step4 w uid (POST b) s = (r, s')" and clean: "pending s = []"
  shows "(booking_data s \<noteq> None \<and> \<not> commit_succeeds w \<longrightarrow> reports_failure r)
       \<and> (r = booking_confirmed \<longrightarrow>
            (\<exists>bk. bookings s' = bookings s @ [bk]) \<and> booking_data s' = None \<and> pending s' = [])
       \<and> (r \<noteq> booking_confirmed \<longrightarrow>
            bookings s' = bookings s \<and> booking_data s' = booking_data s \<and> pending s' = [])"
proof (cases "booking_data s")
  case None
  with run clean show ?thesis
    by (auto simp: booking_step4_def responses_distinct)
next
  case (Some d)
  obtain res s1 where t: "booking_step4_try w uid d s = (res, s1)"
    by (cases "booking_step4_try w uid d s")
  from step4_try_cases [OF t] step4_try_no_commit [OF _ t] run clean Some t show ?thesis
    by (auto simp: booking_step4_def responses_distinct reports_failure_simps split: flow.splits)
qed

lemma failing_commit_run:
  "booking_step4 (scenario_world\<lparr>commit_succeeds := False\<rparr>) 1 (POST None) scheduled_app
   = (error_confirming, scheduled_app)"
  by code_simp

lemma scheduled_app_facts:
  "pending scheduled_app = []" "booking_data scheduled_app \<noteq> None"
  "\<not> commit_succeeds (scenario_world\<lparr>commit_succeeds := False\<rparr>)"
  by (simp_all add: scheduled_app_def scenario_world_def)

text \<open>The same draft with a commit that goes through: one booking, no draft.\<close>

lemma successful_run:
  "booking_step4 scenario_world 1 (POST None) scheduled_app
   = (booking_confirmed,
      \<lparr>booking_data = None,
       bookings = [\<lparr>user_id = 1, service_id = 3, scheduled_date = june_first,
                    status = ''confirmed'', special_instructions = JStr [],
                    total_price = Fin 65\<rparr>],
       pending = []\<rparr>)"
  by code_simp

theorem finalizer_atomic_witness:
  "pending scheduled_app = [] \<and> booking_data scheduled_app \<noteq> None
   \<and> \<not> commit_succeeds (scenario_world\<lparr>commit_succeeds := False\<rparr>)
   \<and> booking_step4 (scenario_world\<lparr>commit_succeeds := False\<rparr>) 1 (POST None) scheduled_app
       = (error_confirming, scheduled_app)
   \<and> reports_failure error_confirming
   \<and> error_confirming \<noteq> booking_confirmed
   \<and> booking_step4 scenario_world 1 (POST None) scheduled_app
       = (booking_confirmed,
          \<lparr>booking_data = None,
           bookings = [\<lparr>user_id = 1, service_id = 3, scheduled_date = june_first,
                        status = ''confirmed'', special_instructions = JStr [],
                        total_price = Fin 65\<rparr>],
           pending = []\<rparr>)
   \<and> bookings scheduled_app = []"
  using finalizer_atomic [OF failing_commit_run scheduled_app_facts(1)]
    finalizer_atomic [OF successful_run scheduled_app_facts(1)]
    failing_commit_run successful_run scheduled_app_facts
  by (simp add: responses_distinct scheduled_app_def)

subsection \<open>The total price\<close>


lemma scenario_confirm:
  "booking_step4 scenario_world 1 (POST None)
     \<lparr>booking_data = Some scenario_draft, bookings = [], pending = []\<rparr>
   = (booking_confirmed, \<lparr>booking_data = None, bookings = [scenario_booking], pending = []\<rparr>)"
  by code_simp




subsection \<open>Confirming twice\<close>

text \<open>
  C5. After a POST to step 4 that answered with the confirmation, the next POST to step 4
  (whatever the outside looks like by then) finds no draft: it redirects to step 1 and
  changes nothing.
\<close>

theorem confirm_twice:
  assumes "booking_step4 w uid (POST b) s = (booking_confirmed, s1)"
  shows "booking_step4 w2 uid2 (POST b2) s1 = (Redirect ''booking_step1'', s1)"
proof -
  from assms have "booking_data s1 = None"
    unfolding booking_step4_def booking_step4_try_def
    by (auto simp: Let_def responses_distinct split: option.splits if_splits)
  then show ?thesis
    by (simp add: booking_step4_def)
qed

theorem confirm_twice_witness:
  "booking_step4 scenario_world 1 (POST None)
     \<lparr>booking_data = Some scenario_draft, bookings = [], pending = []\<rparr>
   = (booking_confirmed, \<lparr>booking_data = None, bookings = [scenario_booking], pending = []\<rparr>)
   \<and> booking_step4 scenario_world 1 (POST None)
       \<lparr>booking_data = None, bookings = [scenario_booking], pending = []\<rparr>
     = (Redirect ''booking_step1'',
        \<lparr>booking_data = None, bookings = [scenario_booking], pending = []\<rparr>)"
  using confirm_twice [OF scenario_confirm, of scenario_world 1 None] scenario_confirm
  by simp

subsection \<open>No draft without a service\<close>

lemma no_draft_op:
  assumes "booking_data s = None" and "\<not> is_choose_service x"
  shows "\<exists>r. apply_draft_op uid x s = (r, s) \<and> is_no_draft_error r"
proof (cases x)
  case (Choose_service i n p)
  with assms show ?thesis by simp
next
  case (Choose_products ps t)
  with assms show ?thesis
    by (cases t) (simp_all add: booking_step2_def booking_step2_try_def is_no_draft_error_def
        optional_field_def save_session_def)
next
  case (Schedule sd st si)
  with assms show ?thesis
    by (simp add: booking_step3_def booking_step3_try_def is_no_draft_error_def
        save_session_def)
next
  case (Confirm w)
  with assms show ?thesis
    by (simp add: booking_step4_def is_no_draft_error_def)
qed

text \<open>
  C6. Start without a draft and run any sequence of draft operations with no
  chooseService among them: every operation is answered (one response each) with the
  missing-draft error, as \<^verbatim>\<open>No booking data found\<close> or as the redirect to step 1, and
  the state at the end is the state at the start: no draft, no booking.
\<close>

theorem no_choose_service_no_draft:
  assumes "booking_data s = None" and "\<not> list_ex is_choose_service ops"
  shows "snd (run_draft_ops uid ops s) = s
       \<and> length (fst (run_draft_ops uid ops s)) = length ops
       \<and> list_all is_no_draft_error (fst (run_draft_ops uid ops s))"
  using assms
proof (induction ops)
  case Nil
  then show ?case by simp
next
  case (Cons x xs)
  from Cons.prems obtain r where r: "apply_draft_op uid x s = (r, s)" "is_no_draft_error r"
    using no_draft_op [of s x uid] by auto
  from Cons show ?case
    by (cases "run_draft_ops uid xs s") (auto simp: r)
qed

theorem no_choose_service_no_draft_witness:
  "booking_data empty_app = None \<and> \<not> list_ex is_choose_service no_service_ops
   \<and> run_draft_ops 1 no_service_ops empty_app
       = ([no_booking_data, no_booking_data, Redirect ''booking_step1'', no_booking_data],
          empty_app)"
proof -
  have h: "booking_data empty_app = None" "\<not> list_ex is_choose_service no_service_ops"
    by (simp_all add: empty_app_def no_service_ops_def)
  have r: "run_draft_ops 1 no_service_ops empty_app
       = ([no_booking_data, no_booking_data, Redirect ''booking_step1'', no_booking_data],
          empty_app)"
    by code_simp
  from no_choose_service_no_draft [OF h, of 1] h r show ?thesis
    by simp
qed

text \<open>
  The page \<^verbatim>\<open>/products\<close> is not one of the draft operations; a visit to it starts a
  draft with the default service, and the operations that follow find that draft.
\<close>

lemma products_page_starts_draft:
  "booking_data (snd (products s)) \<noteq> None"
  by (simp add: products_def)

subsection \<open>Choosing a service again\<close>

lemma incomplete_selection:
  assumes "py_in ''service_id'' data = Some True"
    and "py_getitem data ''service_id'' = None \<or> py_getitem data ''service_name'' = None
         \<or> py_getitem data ''price'' = None"
  shows "booking_step2 (POST (Some data)) s = (error_processing, s)"
  using assms
  by (auto simp: booking_step2_def booking_step2_try_def save_session_def split: option.splits)

text \<open>
  C10, as the claim states it, fails: a request that carries \<^verbatim>\<open>service_id\<close> and no
  \<^verbatim>\<open>service_name\<close> is answered with \<^verbatim>\<open>Error processing request\<close> and leaves the
  session as it was, with or without a draft.
\<close>

theorem service_selection_incomplete_counterexample:
  "py_in ''service_id'' (JObj [(''service_id'', JInt 3)]) = Some True
   \<and> booking_step2 (POST (Some (JObj [(''service_id'', JInt 3)]))) empty_app
       = (error_processing, empty_app)
   \<and> booking_step2 (POST (Some (JObj [(''service_id'', JInt 3)])))
         \<lparr>booking_data = Some scenario_draft, bookings = [], pending = []\<rparr>
       = (error_processing, \<lparr>booking_data = Some scenario_draft, bookings = [], pending = []\<rparr>)"
  by (simp add: incomplete_selection)

text \<open>
  C10, amended. A request whose body carries \<^verbatim>\<open>service_id\<close>, \<^verbatim>\<open>service_name\<close> and
  \<^verbatim>\<open>price\<close> succeeds from every state of the session, and the draft becomes exactly
  these three fields: whatever an earlier draft held is gone. A request whose body
  carries \<^verbatim>\<open>service_id\<close> and lacks \<^verbatim>\<open>service_name\<close> or \<^verbatim>\<open>price\<close> is answered
  with \<^verbatim>\<open>Error processing request\<close> from every state of the session, and the session
  stays as it was.
\<close>

theorem service_selection_replaces_draft:
  "(py_getitem data ''service_id'' = Some i \<and> py_getitem data ''service_name'' = Some n
      \<and> py_getitem data ''price'' = Some p
    \<longrightarrow> booking_step2 (POST (Some data)) s
        = (success_true,
           s\<lparr>booking_data :=
                Some [(''service_id'', i), (''service_name'', n), (''price'', p)]\<rparr>))
   \<and> (py_in ''service_id'' data = Some True
      \<and> (py_getitem data ''service_name'' = None \<or> py_getitem data ''price'' = None)
    \<longrightarrow> booking_step2 (POST (Some data)) s = (error_processing, s))"
proof (intro conjI impI)
  assume a: "py_getitem data ''service_id'' = Some i \<and> py_getitem data ''service_name'' = Some n
      \<and> py_getitem data ''price'' = Some p"
  show "booking_step2 (POST (Some data)) s
        = (success_true,
           s\<lparr>booking_data :=
                Some [(''service_id'', i), (''service_name'', n), (''price'', p)]\<rparr>)"
  proof (cases data)
    case (JObj kvs)
    with a show ?thesis
      by (simp add: booking_step2_def booking_step2_try_def save_session_def)
  qed (use a in simp_all)
next
  assume "py_in ''service_id'' data = Some True
      \<and> (py_getitem data ''service_name'' = None \<or> py_getitem data ''price'' = None)"
  then show "booking_step2 (POST (Some data)) s = (error_processing, s)"
    by (blast intro: incomplete_selection)
qed

text \<open>A selection over the draft of the scenario, and a request without a price.\<close>

theorem service_selection_replaces_draft_witness:
  "py_getitem (JObj [(''service_id'', JInt 1), (''service_name'', JStr ''Lawn Mowing''),
                     (''price'', JFloat (Fin 50))]) ''service_id'' = Some (JInt 1)
   \<and> py_getitem (JObj [(''service_id'', JInt 1), (''service_name'', JStr ''Lawn Mowing''),
                     (''price'', JFloat (Fin 50))]) ''service_name'' = Some (JStr ''Lawn Mowing'')
   \<and> py_getitem (JObj [(''service_id'', JInt 1), (''service_name'', JStr ''Lawn Mowing''),
                     (''price'', JFloat (Fin 50))]) ''price'' = Some (JFloat (Fin 50))
   \<and> booking_step2
        (POST (Some (JObj [(''service_id'', JInt 1), (''service_name'', JStr ''Lawn Mowing''),
                           (''price'', JFloat (Fin 50))])))
        \<lparr>booking_data = Some scenario_draft, bookings = [], pending = []\<rparr>
     = (success_true,
        \<lparr>booking_data = Some [(''service_id'', JInt 1), (''service_name'', JStr ''Lawn Mowing''),
                              (''price'', JFloat (Fin 50))],
         bookings = [], pending = []\<rparr>)
   \<and> py_in ''service_id''
        (JObj [(''service_id'', JInt 1), (''service_name'', JStr ''Lawn Mowing'')]) = Some True
   \<and> py_getitem (JObj [(''service_id'', JInt 1), (''service_name'', JStr ''Lawn Mowing'')])
        ''price'' = None
   \<and> booking_step2
        (POST (Some (JObj [(''service_id'', JInt 1), (''service_name'', JStr ''Lawn Mowing'')])))
        \<lparr>booking_data = Some scenario_draft, bookings = [], pending = []\<rparr>
     = (error_processing, \<lparr>booking_data = Some scenario_draft, bookings = [], pending = []\<rparr>)"
  using service_selection_replaces_draft
    [of "JObj [(''service_id'', JInt 1), (''service_name'', JStr ''Lawn Mowing''),
               (''price'', JFloat (Fin 50))]"
        "JInt 1" "JStr ''Lawn Mowing''" "JFloat (Fin 50)"
        "\<lparr>booking_data = Some scenario_draft, bookings = [], pending = []\<rparr>"]
    service_selection_replaces_draft
    [of "JObj [(''service_id'', JInt 1), (''service_name'', JStr ''Lawn Mowing'')]"
        "JInt 1" "JStr ''Lawn Mowing''" "JNull"
        "\<lparr>booking_data = Some scenario_draft, bookings = [], pending = []\<rparr>"]
  by simp

section \<open>Properties of the weather gateway\<close>

lemma first_call:
  "get_weather reachable_world (Some ''Austin, TX'') cold_state
   = (Weather \<lparr>reply_data = austin_data, reply_cached = False, reply_mock = False,
               reply_timestamp = 1000250\<rparr>, warm_state)"
  by code_simp

lemma second_call:
  "get_weather later_world (Some ''Austin, TX'') warm_state
   = (Weather \<lparr>reply_data = austin_data, reply_cached = True, reply_mock = False,
               reply_timestamp = 1000020\<rparr>, warm_state)"
  by code_simp

lemma default_location: "get_weather w None s = get_weather w (Some ''Miami, FL'') s"
  by (simp add: get_weather_def)

subsection \<open>The fallback to mock data\<close>

text \<open>
  When no fresh entry answers the call, a RequestException, a status other than 200, and
  a body that is an object whose \<^verbatim>\<open>error\<close> is an object all end in the mock reply,
  after one call of the provider and with the cache file untouched.
\<close>

lemma mock_fallback:
  assumes miss: "fresh_entry w (load_weather_cache (cache_file s)) (cache_key loc) = None"
    and fails: "provider w = Request_exception
      \<or> (\<exists>code b. provider w = Response code b \<and> code \<noteq> 200)
      \<or> (\<exists>kvs e. provider w = Response 200 (Body (JObj kvs))
                   \<and> map_of kvs ''error'' = Some (JObj e))"
  shows "get_weather w (Some loc) s
       = (Weather \<lparr>reply_data = get_mock_weather_data loc, reply_cached = False,
                   reply_mock = True, reply_timestamp = now_reply w\<rparr>,
          s\<lparr>outbound_calls := outbound_calls s + 1\<rparr>)"
  using assms
  by (auto simp: get_weather_def fetch_from_api_def Let_def)

lemma mock_temperature:
  assumes "py_getitem (get_mock_weather_data loc) ''current'' = Some cur"
  shows "py_getitem cur ''temperature'' = Some (JInt 72)"
  using assms by (auto simp: get_mock_weather_data_def)

text \<open>The scenario of the specification: the provider answers 500 for Nowhere.\<close>

lemma http_500_mock:
  "get_weather http_500_world (Some ''Nowhere'') cold_state
   = (Weather \<lparr>reply_data = get_mock_weather_data ''Nowhere'', reply_cached = False,
               reply_mock = True, reply_timestamp = 1000250\<rparr>,
      \<lparr>cache_file = Missing, outbound_calls = 1\<rparr>)"
  by code_simp

text \<open>
  C3. The code departs from the claim when the provider answers 200 with a JSON body
  whose \<^verbatim>\<open>error\<close> is not an object, here the string \<^verbatim>\<open>"usage limit reached"\<close>:
  the warning that the handler logs before falling back calls \<^verbatim>\<open>.get('info', ...)\<close>
  on that string, the AttributeError is not a RequestException, and the outer
  \<^verbatim>\<open>except\<close> answers \<^verbatim>\<open>success: false\<close> with status 500 instead of the mock data.
\<close>

theorem provider_error_string_unavailable:
  "provider_error_body (JObj [(''error'', JStr ''usage limit reached'')])
   \<and> get_weather error_string_world (Some ''Nowhere'') cold_state
       = (Unavailable, \<lparr>cache_file = Missing, outbound_calls = 1\<rparr>)
   \<and> success Unavailable = False \<and> http_status Unavailable = 500"
  by (simp add: provider_error_body_def get_weather_def fetch_from_api_def fresh_entry_def
      error_string_world_def cold_state_def Let_def)

subsection \<open>The cached reply\<close>

lemma fresh_entry_Some:
  assumes "map_of c k = Some e" and "now_valid w - entry_timestamp e < 7200000000"
  shows "fresh_entry w c k = Some e"
  using assms by (simp add: fresh_entry_def is_cache_valid_def)

text \<open>
  C4, as the claim states it, fails: of two calls for Austin an hour apart, the first
  answered by the provider and the second from the cache, the replies differ in the
  \<^verbatim>\<open>cached\<close> flag and in the \<^verbatim>\<open>timestamp\<close> as well. The first reply carries a reading
  of the clock taken after the cache was written, the second the timestamp stored in
  the entry.
\<close>

theorem two_calls_timestamp_counterexample:
  "get_weather reachable_world (Some ''Austin, TX'') cold_state
   = (Weather \<lparr>reply_data = austin_data, reply_cached = False, reply_mock = False,
               reply_timestamp = 1000250\<rparr>, warm_state)
   \<and> get_weather later_world (Some ''Austin, TX'') warm_state
   = (Weather \<lparr>reply_data = austin_data, reply_cached = True, reply_mock = False,
               reply_timestamp = 1000020\<rparr>, warm_state)
   \<and> \<lparr>reply_data = austin_data, reply_cached = True, reply_mock = False,
       reply_timestamp = 1000020\<rparr>
     \<noteq> \<lparr>reply_data = austin_data, reply_cached = False, reply_mock = False,
         reply_timestamp = 1000250\<rparr>\<lparr>reply_cached := True\<rparr>"
  using first_call second_call by simp

text \<open>
  C4, amended. When the cache holds an entry under the key of the location and that
  entry is less than two hours old, the reply is the entry's data and timestamp, tagged
  as cached, and the state is unchanged: the provider is not called. And when a first
  call finds no fresh entry, the provider answers it with status 200 and a body without
  \<^verbatim>\<open>error\<close>, the cache file is written, and a second call for the same location comes
  less than two hours after the entry was stamped, then the provider was called exactly
  once in all, both replies carry the same data and no mock flag, the first is tagged
  not cached with the time of the reply, the second cached with the time of the entry.
\<close>

theorem cached_within_two_hours:
  "(map_of (load_weather_cache (cache_file s)) (cache_key loc) = Some e
      \<and> now_valid w - entry_timestamp e < 7200000000
    \<longrightarrow> get_weather w (Some loc) s
         = (Weather \<lparr>reply_data = entry_data e, reply_cached = True, reply_mock = False,
                     reply_timestamp = entry_timestamp e\<rparr>, s))
   \<and> (fresh_entry w1 (load_weather_cache (cache_file s)) (cache_key loc) = None
      \<and> provider w1 = Response 200 (Body data) \<and> py_in ''error'' data = Some False
      \<and> write_outcome w1 = Write_completes
      \<and> now_valid w2 - now_entry w1 < 7200000000
    \<longrightarrow> (\<exists>s1. get_weather w1 (Some loc) s
               = (Weather \<lparr>reply_data = data, reply_cached = False, reply_mock = False,
                           reply_timestamp = now_reply w1\<rparr>, s1)
            \<and> get_weather w2 (Some loc) s1
               = (Weather \<lparr>reply_data = data, reply_cached = True, reply_mock = False,
                           reply_timestamp = now_entry w1\<rparr>, s1)
            \<and> outbound_calls s1 = outbound_calls s + 1))"
proof (intro conjI impI)
  assume "map_of (load_weather_cache (cache_file s)) (cache_key loc) = Some e
      \<and> now_valid w - entry_timestamp e < 7200000000"
  then have "fresh_entry w (load_weather_cache (cache_file s)) (cache_key loc) = Some e"
    by (simp add: fresh_entry_Some)
  then show "get_weather w (Some loc) s
         = (Weather \<lparr>reply_data = entry_data e, reply_cached = True, reply_mock = False,
                     reply_timestamp = entry_timestamp e\<rparr>, s)"
    by (simp add: get_weather_def)
next
  assume a: "fresh_entry w1 (load_weather_cache (cache_file s)) (cache_key loc) = None
      \<and> provider w1 = Response 200 (Body data) \<and> py_in ''error'' data = Some False
      \<and> write_outcome w1 = Write_completes
      \<and> now_valid w2 - now_entry w1 < 7200000000"
  let ?e = "\<lparr>entry_data = data, entry_timestamp = now_entry w1\<rparr>"
  let ?c = "AList.update (cache_key loc) ?e (load_weather_cache (cache_file s))"
  let ?s1 = "s\<lparr>outbound_calls := outbound_calls s + 1, cache_file := Json_text ?c\<rparr>"
  have 1: "get_weather w1 (Some loc) s
               = (Weather \<lparr>reply_data = data, reply_cached = False, reply_mock = False,
                           reply_timestamp = now_reply w1\<rparr>, ?s1)"
    using a
    by (simp add: get_weather_def fetch_from_api_def save_weather_cache_def
        file_after_steps_def save_weather_cache_ops_def Let_def)
  have "map_of ?c (cache_key loc) = Some ?e"
    by (simp add: update_conv')
  with a have "fresh_entry w2 (load_weather_cache (cache_file ?s1)) (cache_key loc) = Some ?e"
    by (simp add: fresh_entry_Some)
  then have 2: "get_weather w2 (Some loc) ?s1
               = (Weather \<lparr>reply_data = data, reply_cached = True, reply_mock = False,
                           reply_timestamp = now_entry w1\<rparr>, ?s1)"
    by (simp add: get_weather_def)
  from 1 2 show "\<exists>s1. get_weather w1 (Some loc) s
               = (Weather \<lparr>reply_data = data, reply_cached = False, reply_mock = False,
                           reply_timestamp = now_reply w1\<rparr>, s1)
            \<and> get_weather w2 (Some loc) s1
               = (Weather \<lparr>reply_data = data, reply_cached = True, reply_mock = False,
                           reply_timestamp = now_entry w1\<rparr>, s1)
            \<and> outbound_calls s1 = outbound_calls s + 1"
    by (intro exI [of _ ?s1]) simp
qed

lemma cold_facts:
  "fresh_entry reachable_world (load_weather_cache (cache_file cold_state))
     (cache_key ''Austin, TX'') = None"
  "provider reachable_world = Response 200 (Body austin_data)"
  "py_in ''error'' austin_data = Some False"
  "write_outcome reachable_world = Write_completes"
  "now_valid later_world - now_entry reachable_world < 7200000000"
  by (simp_all add: fresh_entry_def cold_state_def reachable_world_def later_world_def
      austin_data_def)

lemma warm_facts:
  "map_of (load_weather_cache (cache_file warm_state)) (cache_key ''Austin, TX'')
     = Some \<lparr>entry_data = austin_data, entry_timestamp = 1000020\<rparr>"
  "now_valid later_world
     - entry_timestamp \<lparr>entry_data = austin_data, entry_timestamp = 1000020\<rparr> < 7200000000"
  by code_simp+

theorem cached_within_two_hours_witness:
  "map_of (load_weather_cache (cache_file warm_state)) (cache_key ''Austin, TX'')
     = Some \<lparr>entry_data = austin_data, entry_timestamp = 1000020\<rparr>
   \<and> now_valid later_world
       - entry_timestamp \<lparr>entry_data = austin_data, entry_timestamp = 1000020\<rparr> < 7200000000
   \<and> get_weather later_world (Some ''Austin, TX'') warm_state
       = (Weather \<lparr>reply_data = austin_data, reply_cached = True, reply_mock = False,
                   reply_timestamp = 1000020\<rparr>, warm_state)
   \<and> fresh_entry reachable_world (load_weather_cache (cache_file cold_state))
         (cache_key ''Austin, TX'') = None
   \<and> provider reachable_world = Response 200 (Body austin_data)
   \<and> py_in ''error'' austin_data = Some False
   \<and> write_outcome reachable_world = Write_completes
   \<and> now_valid later_world - now_entry reachable_world < 7200000000
   \<and> get_weather reachable_world (Some ''Austin, TX'') cold_state
       = (Weather \<lparr>reply_data = austin_data, reply_cached = False, reply_mock = False,
                   reply_timestamp = 1000250\<rparr>, warm_state)
   \<and> outbound_calls warm_state = outbound_calls cold_state + 1"
  using cached_within_two_hours
    [of warm_state "''Austin, TX''" "\<lparr>entry_data = austin_data, entry_timestamp = 1000020\<rparr>"
        later_world reachable_world austin_data later_world]
    cold_facts warm_facts first_call second_call
  by (simp add: warm_state_def cold_state_def)

subsection \<open>Writing the cache file\<close>

text \<open>
  C7, as the claim states it, fails: the save writes the cache file in place. After its
  first step, the opening of the file for writing, a file that was valid is torn, and
  loading it gives the empty cache.
\<close>

theorem save_in_place_counterexample:
  "file_valid (Json_text austin_cache)
   \<and> \<not> file_valid (file_after_steps 1 austin_cache (Json_text austin_cache))
   \<and> load_weather_cache (file_after_steps 1 austin_cache (Json_text austin_cache)) = []"
  by (simp add: file_valid_def file_after_steps_def save_weather_cache_ops_def)

text \<open>
  C7, amended. A save of the cache opens \<^verbatim>\<open>weather_cache.json\<close> itself for writing,
  which truncates it, and then writes the JSON text: there is no new file and no swap.
  Before the first step the file is what it was, between the two steps it is torn, and
  after both it holds the cache that was saved, which a load gives back. A save whose
  write raises after the opening leaves the torn file, which loads as the empty cache; a
  save whose opening raises leaves the file as it was.
\<close>

theorem save_rewrites_in_place:
  "save_weather_cache_ops c = [Open_for_writing, Dump_and_close c]
   \<and> file_after_steps 0 c f = f
   \<and> file_after_steps 1 c f = Torn
   \<and> file_after_steps 2 c f = Json_text c
   \<and> save_weather_cache Write_completes c f = Json_text c
   \<and> load_weather_cache (save_weather_cache Write_completes c f) = c
   \<and> save_weather_cache Dump_raises c f = Torn
   \<and> load_weather_cache (save_weather_cache Dump_raises c f) = []
   \<and> save_weather_cache Open_raises c f = f"
  by (simp add: save_weather_cache_def file_after_steps_def save_weather_cache_ops_def
      numeral_2_eq_2)

subsection \<open>The mock reply is not cached\<close>

lemma fetch_cases:
  assumes "fetch_from_api w k c s = (res, s1)"
  shows "outbound_calls s1 = outbound_calls s + 1
       \<and> (res \<noteq> Fall_through \<or> cache_file s1 = cache_file s)
       \<and> (cache_file s1 = cache_file s \<or> successful_response (provider w))"
  using assms unfolding fetch_from_api_def successful_response_def
  by (auto simp: Let_def
      split: provider_result.splits body.splits option.splits if_splits bool.splits)

lemma fetch_return_not_mock:
  assumes "fetch_from_api w k c s = (Return x, s1)"
  shows "\<not> reply_mock x"
  using assms unfolding fetch_from_api_def
  by (auto simp: Let_def
      split: provider_result.splits body.splits option.splits if_splits bool.splits)

text \<open>
  C9. Whatever a call of the endpoint returns: if the reply is tagged as mock, the cache
  file is what it was before the call; and if the cache file is not what it was, the
  provider answered with status 200 and a body in which \<^verbatim>\<open>error\<close> does not occur.
\<close>

theorem mock_is_not_cached:
  assumes "get_weather w arg s = (r, s')"
  shows "(is_mock r \<longrightarrow> cache_file s' = cache_file s)
       \<and> (cache_file s' \<noteq> cache_file s \<longrightarrow> successful_response (provider w))"
proof (cases "fresh_entry w (load_weather_cache (cache_file s))
               (cache_key (case arg of None \<Rightarrow> ''Miami, FL'' | Some l \<Rightarrow> l))")
  case (Some e)
  with assms show ?thesis
    by (auto simp: get_weather_def Let_def)
next
  case None
  obtain res s1 where
    f: "fetch_from_api w (cache_key (case arg of None \<Rightarrow> ''Miami, FL'' | Some l \<Rightarrow> l))
          (load_weather_cache (cache_file s)) s = (res, s1)"
    by (cases "fetch_from_api w (cache_key (case arg of None \<Rightarrow> ''Miami, FL'' | Some l \<Rightarrow> l))
          (load_weather_cache (cache_file s)) s")
  have r: "\<not> reply_mock x" if "res = Return x" for x
    using f that fetch_return_not_mock by simp
  from fetch_cases [OF f] r assms None f show ?thesis
    by (auto simp: get_weather_def Let_def split: flow.splits)
qed

lemma stale_run:
  "get_weather stale_world (Some ''Austin, TX'') warm_state
   = (Weather \<lparr>reply_data = get_mock_weather_data ''Austin, TX'', reply_cached = False,
               reply_mock = True, reply_timestamp = 9000000250\<rparr>,
      \<lparr>cache_file = Json_text austin_cache, outbound_calls = 2\<rparr>)"
  by code_simp

theorem mock_is_not_cached_witness:
  "get_weather stale_world (Some ''Austin, TX'') warm_state
   = (Weather \<lparr>reply_data = get_mock_weather_data ''Austin, TX'', reply_cached = False,
               reply_mock = True, reply_timestamp = 9000000250\<rparr>,
      \<lparr>cache_file = Json_text austin_cache, outbound_calls = 2\<rparr>)
   \<and> is_mock (Weather \<lparr>reply_data = get_mock_weather_data ''Austin, TX'',
                        reply_cached = False, reply_mock = True,
                        reply_timestamp = 9000000250\<rparr>)
   \<and> cache_file \<lparr>cache_file = Json_text austin_cache, outbound_calls = 2\<rparr>
       = cache_file warm_state
   \<and> cache_file (snd (get_weather reachable_world (Some ''Austin, TX'') cold_state))
       \<noteq> cache_file cold_state
   \<and> successful_response (provider reachable_world)"
  using mock_is_not_cached [OF stale_run] mock_is_not_cached [OF first_call] stale_run first_call
  by (simp add: warm_state_def cold_state_def)

end
